theory Spec2Isabelle
  imports Main "HOL-Library.Word"
begin

section \<open>Protocol constants\<close>

text \<open>
  The bindings for \<open>ext_session_lock_v1\<close> number requests and events with Go
  \<open>iota\<close> blocks of type \<open>uint32\<close>; each block restarts at 0.
\<close>

type_synonym uint32 = "32 word"

definition ManagerRequestDestroy :: uint32 where "ManagerRequestDestroy = 0"
definition ManagerRequestLock :: uint32 where "ManagerRequestLock = 1"

definition LockRequestDestroy :: uint32 where "LockRequestDestroy = 0"
definition LockRequestGetLockSurface :: uint32 where "LockRequestGetLockSurface = 1"
definition LockRequestUnlockAndDestroy :: uint32 where "LockRequestUnlockAndDestroy = 2"

definition LockEventLocked :: uint32 where "LockEventLocked = 0"
definition LockEventFinished :: uint32 where "LockEventFinished = 1"

definition SurfaceRequestDestroy :: uint32 where "SurfaceRequestDestroy = 0"
definition SurfaceRequestAckConfigure :: uint32 where "SurfaceRequestAckConfigure = 1"

definition SurfaceEventConfigure :: uint32 where "SurfaceEventConfigure = 0"

section \<open>Handlers, events and effects\<close>

text \<open>
  The three handler interfaces of the package, one per event. A Go value that can be
  stored in an interface comes with the handler interfaces its dynamic type implements.
  \<open>Dyn i m\<close> is a value of a comparable dynamic type (a pointer, as in the example
  client), \<open>i\<close> standing for its type and value. \<open>NonComparable t i m\<close> is the value
  \<open>i\<close> of the dynamic type \<open>t\<close>, a type that Go cannot compare (a function, slice or map
  type, or a struct with such a field); a named type of this kind can have methods and
  so be a handler. An interface value is a \<open>dynval option\<close>: \<open>None\<close> is the nil
  interface.
\<close>

datatype handler_iface =
    SessionLockLockedHandler
  | SessionLockFinishedHandler
  | SessionLockSurfaceConfigureHandler

datatype dynval =
    Dyn (ident: nat) (implements: "handler_iface list")
  | NonComparable (dyntype: nat) (ident: nat) (implements: "handler_iface list")

text \<open>
  The event structs. \<open>SessionLockLockedEvent\<close> and \<open>SessionLockFinishedEvent\<close> have no
  fields; \<open>SessionLockSurfaceConfigureEvent\<close> has the fields Serial, Width, Height.
\<close>

datatype event_value =
    SessionLockLockedEvent
  | SessionLockFinishedEvent
  | SessionLockSurfaceConfigureEvent (Serial: uint32) (Width: uint32) (Height: uint32)

text \<open>
  What a method does besides computing its result is recorded, in program order, as a
  list of actions: reading the length of a listener slice, building an event struct,
  consuming one \<open>uint32\<close> of the payload, the four operations on the object's
  \<open>sync.RWMutex\<close>, and the calls of the handlers' methods.
\<close>

datatype action =
    Len handler_iface
  | Construct event_value
  | Uint32 uint32
  | RLock
  | RUnlock
  | Lock
  | Unlock
  | HandleSessionLockLocked dynval event_value
  | HandleSessionLockFinished dynval event_value
  | HandleSessionLockSurfaceConfigure dynval event_value

text \<open>
  An inbound event: its opcode and the part of the payload not yet consumed, as the
  sequence of its remaining \<open>uint32\<close> fields.

  Modelled from the spec: \<open>wl.Event\<close> and its method \<open>Uint32\<close> belong to the wire
  library, which is not part of the sources. The spec describes the payload as a cursor
  over 32-bit unsigned fields in the transport's byte order; \<open>Event_Uint32\<close> returns the
  field under the cursor and advances it, and has no result when the payload is
  exhausted.
\<close>

record Event =
  Opcode :: uint32
  payload :: "uint32 list"

definition Event_Uint32 :: "Event \<Rightarrow> (uint32 \<times> Event) option" where
  "Event_Uint32 event =
     (case payload event of
        [] \<Rightarrow> None
      | w # ws \<Rightarrow> Some (w, event\<lparr>payload := ws\<rparr>))"

text \<open>
  The two ways in which a method may panic: \<open>Uint32\<close> on an exhausted payload, and the
  comparison of two interface values of the same non-comparable dynamic type.
\<close>

datatype fault = ShortPayload | UncomparablePanic

section \<open>The proxy objects\<close>

text \<open>
  The listener slices of the two event-emitting proxies. The embedded \<open>BaseProxy\<close>
  (object ID and context) is represented by the key under which the object is stored in
  the context, see below; the mutex appears through the actions on it.
\<close>

record SessionLock =
  privateSessionLockLocked :: "dynval list"
  privateSessionLockFinished :: "dynval list"

record SessionLockSurface =
  privateSessionLockSurfaceConfigure :: "dynval list"

datatype SessionLockManager = SessionLockManager

definition new_SessionLock :: SessionLock where
  "new_SessionLock = \<lparr>privateSessionLockLocked = [], privateSessionLockFinished = []\<rparr>"

definition new_SessionLockSurface :: SessionLockSurface where
  "new_SessionLockSurface = \<lparr>privateSessionLockSurfaceConfigure = []\<rparr>"

subsection \<open>Adding and removing handlers\<close>

text \<open>
  \<open>iface_eq e h\<close> is Go's \<open>e == h\<close> on interface values, for an entry \<open>e\<close> of a listener
  slice: values of different dynamic types are unequal, values of the same comparable
  type are compared, and for two values of the same non-comparable dynamic type the
  comparison panics. \<open>panics h es\<close> says that \<open>es\<close> has an entry whose comparison with
  \<open>h\<close> panics; \<open>comparable h\<close> that \<open>h\<close> is nil or of a comparable type.
\<close>

fun uncomparable_pair :: "dynval \<Rightarrow> dynval \<Rightarrow> bool" where
  "uncomparable_pair (NonComparable t i m) (NonComparable t' i' m') = (t = t')"
| "uncomparable_pair e g = False"


definition panics :: "dynval option \<Rightarrow> dynval list \<Rightarrow> bool" where
  "panics h es =
     (case h of None \<Rightarrow> False | Some g \<Rightarrow> list_ex (\<lambda>e. uncomparable_pair e g) es)"




text \<open>
  \<open>Add\<close> appends a handler that is not nil, under the write lock. \<open>Remove\<close> takes the
  write lock, defers its release, and cuts the first entry equal to its argument out of
  the slice. When a comparison panics the slice is as it was (the deferred release
  runs), and the panic is the result.
\<close>

definition AddLockedHandler :: "SessionLock \<Rightarrow> dynval option \<Rightarrow> SessionLock \<times> action list" where
  "AddLockedHandler l h =
     (case h of
        None \<Rightarrow> (l, [])
      | Some v \<Rightarrow>
          (l\<lparr>privateSessionLockLocked := privateSessionLockLocked l @ [v]\<rparr>, [Lock, Unlock]))"


definition AddFinishedHandler :: "SessionLock \<Rightarrow> dynval option \<Rightarrow> SessionLock \<times> action list" where
  "AddFinishedHandler l h =
     (case h of
        None \<Rightarrow> (l, [])
      | Some v \<Rightarrow>
          (l\<lparr>privateSessionLockFinished := privateSessionLockFinished l @ [v]\<rparr>, [Lock, Unlock]))"


definition AddConfigureHandler ::
  "SessionLockSurface \<Rightarrow> dynval option \<Rightarrow> SessionLockSurface \<times> action list" where
  "AddConfigureHandler s h =
     (case h of
        None \<Rightarrow> (s, [])
      | Some v \<Rightarrow>
          (s\<lparr>privateSessionLockSurfaceConfigure := privateSessionLockSurfaceConfigure s @ [v]\<rparr>,
           [Lock, Unlock]))"


subsection \<open>Dispatch\<close>

text \<open>
  Each \<open>Dispatch\<close> switches on the opcode. In a handled case it first tests the length
  of the listener slice, outside the lock; only when that is positive does it build the
  event, take the read lock, call every handler in slice order and release the lock.
  The receiver and the event are returned with the actions, since both are passed by
  pointer. What a handler does when it is called is not part of the model; it cannot
  change the listeners of the object that calls it, since \<open>Add\<close> and \<open>Remove\<close> would
  wait for the lock that the dispatch holds.
\<close>

definition SessionLockManager_Dispatch ::
  "SessionLockManager \<Rightarrow> Event \<Rightarrow> SessionLockManager \<times> Event \<times> action list" where
  "SessionLockManager_Dispatch m event = (m, event, [])"

definition SessionLock_Dispatch ::
  "SessionLock \<Rightarrow> Event \<Rightarrow> SessionLock \<times> Event \<times> action list" where
  "SessionLock_Dispatch l event =
     (if Opcode event = LockEventLocked then
        (if length (privateSessionLockLocked l) > 0 then
           (let ev = SessionLockLockedEvent in
            (l, event,
             [Len SessionLockLockedHandler, Construct SessionLockLockedEvent, RLock]
             @ map (\<lambda>h. HandleSessionLockLocked h ev) (privateSessionLockLocked l)
             @ [RUnlock]))
         else (l, event, [Len SessionLockLockedHandler]))
      else if Opcode event = LockEventFinished then
        (if length (privateSessionLockFinished l) > 0 then
           (let ev = SessionLockFinishedEvent in
            (l, event,
             [Len SessionLockFinishedHandler, Construct SessionLockFinishedEvent, RLock]
             @ map (\<lambda>h. HandleSessionLockFinished h ev) (privateSessionLockFinished l)
             @ [RUnlock]))
         else (l, event, [Len SessionLockFinishedHandler]))
      else (l, event, []))"

definition SessionLockSurface_Dispatch ::
  "SessionLockSurface \<Rightarrow> Event \<Rightarrow> fault + (SessionLockSurface \<times> Event \<times> action list)" where
  "SessionLockSurface_Dispatch s event =
     (if Opcode event = SurfaceEventConfigure then
        (if length (privateSessionLockSurfaceConfigure s) > 0 then
           (case Event_Uint32 event of
              None \<Rightarrow> Inl ShortPayload
            | Some (serial, event1) \<Rightarrow>
           (case Event_Uint32 event1 of
              None \<Rightarrow> Inl ShortPayload
            | Some (width, event2) \<Rightarrow>
           (case Event_Uint32 event2 of
              None \<Rightarrow> Inl ShortPayload
            | Some (height, event3) \<Rightarrow>
              (let ev = SessionLockSurfaceConfigureEvent serial width height in
               Inr (s, event3,
                 [Len SessionLockSurfaceConfigureHandler,
                  Construct (SessionLockSurfaceConfigureEvent 0 0 0),
                  Uint32 serial, Uint32 width, Uint32 height, RLock]
                 @ map (\<lambda>h. HandleSessionLockSurfaceConfigure h ev)
                     (privateSessionLockSurfaceConfigure s)
                 @ [RUnlock])))))
         else Inr (s, event, [Len SessionLockSurfaceConfigureHandler]))
      else Inr (s, event, []))"

subsection \<open>The untyped listener helpers\<close>

text \<open>
  The type assertion \<open>h.(I)\<close> of an \<open>interface{}\<close> value to a handler interface: it
  succeeds exactly when \<open>h\<close> is not nil and its dynamic type implements \<open>I\<close>; on failure
  the value is nil and \<open>ok\<close> is false.
\<close>

definition type_assert :: "handler_iface \<Rightarrow> dynval option \<Rightarrow> dynval option \<times> bool" where
  "type_assert I h =
     (case h of
        None \<Rightarrow> (None, False)
      | Some v \<Rightarrow> (if I \<in> set (implements v) then (Some v, True) else (None, False)))"

definition SessionLockManagerAddListener ::
  "SessionLockManager \<Rightarrow> dynval option \<Rightarrow> SessionLockManager \<times> action list" where
  "SessionLockManagerAddListener m h = (m, [])"

definition SessionLockAddListener ::
  "SessionLock \<Rightarrow> dynval option \<Rightarrow> SessionLock \<times> action list" where
  "SessionLockAddListener l h =
     (let (handler, ok) = type_assert SessionLockLockedHandler h;
          (l1, t1) = (if ok then AddLockedHandler l handler else (l, []));
          (handler', ok') = type_assert SessionLockFinishedHandler h;
          (l2, t2) = (if ok' then AddFinishedHandler l1 handler' else (l1, []))
      in (l2, t1 @ t2))"

definition SessionLockSurfaceAddListener ::
  "SessionLockSurface \<Rightarrow> dynval option \<Rightarrow> SessionLockSurface \<times> action list" where
  "SessionLockSurfaceAddListener s h =
     (let (handler, ok) = type_assert SessionLockSurfaceConfigureHandler h
      in (if ok then AddConfigureHandler s handler else (s, [])))"

section \<open>The wire context\<close>

text \<open>
  Modelled from the spec: \<open>wl.Context\<close> (with \<open>Register\<close>, \<open>SendRequest\<close> and the
  delivery of inbound events) belongs to the wire library, which is not part of the
  sources. Following the spec, the context assigns object IDs, holds the registry from
  ID to proxy, and routes an event addressed to an ID to the \<open>Dispatch\<close> of the proxy
  registered under it; an event for an ID that is not registered is ignored.
  \<open>SendRequest\<close> hands one request (sender, opcode, ordered arguments) to the transport
  and returns the transport's error, if any. A proxy passed as an argument is sent as
  its object ID.

  A pointer to a proxy is modelled by the ID under which the proxy is registered: the
  registry is the store of the proxies, so that the caller of a request and the
  dispatcher see the same object. The journal records, in order, what was registered
  and what was handed to the transport.
\<close>

datatype Proxy =
    ManagerProxy SessionLockManager
  | LockProxy SessionLock
  | SurfaceProxy SessionLockSurface
  | ForeignProxy

datatype arg = ArgObject nat | ArgUint32 uint32

record Request =
  sender :: nat
  opcode :: uint32
  args :: "arg list"

datatype error = SendFailed nat

datatype ctx_event = Registered nat | Sent Request

record Context =
  currentID :: nat
  objects :: "(nat \<times> Proxy) list"
  journal :: "ctx_event list"
  sendError :: "error option"

fun store :: "nat \<Rightarrow> Proxy \<Rightarrow> (nat \<times> Proxy) list \<Rightarrow> (nat \<times> Proxy) list" where
  "store i p [] = [(i, p)]"
| "store i p ((j, q) # al) = (if i = j then (i, p) # al else (j, q) # store i p al)"

definition Register :: "Context \<Rightarrow> Proxy \<Rightarrow> Context \<times> nat" where
  "Register ctx proxy =
     (let i = currentID ctx + 1
      in (ctx\<lparr>currentID := i,
              objects := store i proxy (objects ctx),
              journal := journal ctx @ [Registered i]\<rparr>, i))"

definition SendRequest ::
  "Context \<Rightarrow> nat \<Rightarrow> uint32 \<Rightarrow> arg list \<Rightarrow> Context \<times> error option" where
  "SendRequest ctx proxy opc as =
     (ctx\<lparr>journal := journal ctx @ [Sent \<lparr>sender = proxy, opcode = opc, args = as\<rparr>]\<rparr>,
      sendError ctx)"

text \<open>
  The IDs in use, and those ever registered, are bounded by the counter from which new
  IDs are drawn.
\<close>

fun id_bounded :: "nat \<Rightarrow> ctx_event \<Rightarrow> bool" where
  "id_bounded n (Registered i) = (i \<le> n)"
| "id_bounded n (Sent r) = True"

definition ctx_ok :: "Context \<Rightarrow> bool" where
  "ctx_ok ctx =
     (list_all (\<lambda>(i, p). i \<le> currentID ctx) (objects ctx)
      \<and> list_all (id_bounded (currentID ctx)) (journal ctx))"

fun requests :: "ctx_event list \<Rightarrow> Request list" where
  "requests [] = []"
| "requests (Registered i # es) = requests es"
| "requests (Sent r # es) = r # requests es"

subsection \<open>Constructors and requests\<close>

definition NewSessionLockManager :: "Context \<Rightarrow> Context \<times> nat" where
  "NewSessionLockManager ctx = Register ctx (ManagerProxy SessionLockManager)"

definition NewSessionLock :: "Context \<Rightarrow> Context \<times> nat" where
  "NewSessionLock ctx = Register ctx (LockProxy new_SessionLock)"

definition NewSessionLockSurface :: "Context \<Rightarrow> Context \<times> nat" where
  "NewSessionLockSurface ctx = Register ctx (SurfaceProxy new_SessionLockSurface)"

definition SessionLockManager_Destroy :: "Context \<Rightarrow> nat \<Rightarrow> Context \<times> error option" where
  "SessionLockManager_Destroy ctx m = SendRequest ctx m ManagerRequestDestroy []"

definition SessionLockManager_Lock :: "Context \<Rightarrow> nat \<Rightarrow> Context \<times> nat \<times> error option" where
  "SessionLockManager_Lock ctx m =
     (let (ctx1, retId) = NewSessionLock ctx;
          (ctx2, err) = SendRequest ctx1 m ManagerRequestLock [ArgObject retId]
      in (ctx2, retId, err))"

definition SessionLock_Destroy :: "Context \<Rightarrow> nat \<Rightarrow> Context \<times> error option" where
  "SessionLock_Destroy ctx l = SendRequest ctx l LockRequestDestroy []"

definition SessionLock_GetLockSurface ::
  "Context \<Rightarrow> nat \<Rightarrow> nat \<Rightarrow> nat \<Rightarrow> Context \<times> nat \<times> error option" where
  "SessionLock_GetLockSurface ctx l surface output =
     (let (ctx1, retId) = NewSessionLockSurface ctx;
          (ctx2, err) =
            SendRequest ctx1 l LockRequestGetLockSurface
              [ArgObject retId, ArgObject surface, ArgObject output]
      in (ctx2, retId, err))"

definition SessionLock_UnlockAndDestroy :: "Context \<Rightarrow> nat \<Rightarrow> Context \<times> error option" where
  "SessionLock_UnlockAndDestroy ctx l = SendRequest ctx l LockRequestUnlockAndDestroy []"

definition SessionLockSurface_Destroy :: "Context \<Rightarrow> nat \<Rightarrow> Context \<times> error option" where
  "SessionLockSurface_Destroy ctx s = SendRequest ctx s SurfaceRequestDestroy []"

definition SessionLockSurface_AckConfigure ::
  "Context \<Rightarrow> nat \<Rightarrow> uint32 \<Rightarrow> Context \<times> error option" where
  "SessionLockSurface_AckConfigure ctx s serial =
     SendRequest ctx s SurfaceRequestAckConfigure [ArgUint32 serial]"

subsection \<open>Methods through a pointer, and event delivery\<close>

text \<open>
  \<open>at_lock\<close> and \<open>at_surface\<close> run a method of a proxy on the object a pointer refers
  to and write the receiver back; they have no result when the pointer does not refer
  to an object of that type.
\<close>

definition at_lock ::
  "Context \<Rightarrow> nat \<Rightarrow> (SessionLock \<Rightarrow> SessionLock \<times> action list) \<Rightarrow> (Context \<times> action list) option" where
  "at_lock ctx p f =
     (case map_of (objects ctx) p of
        Some (LockProxy l) \<Rightarrow>
          (let (l', t) = f l in Some (ctx\<lparr>objects := store p (LockProxy l') (objects ctx)\<rparr>, t))
      | _ \<Rightarrow> None)"

definition at_surface ::
  "Context \<Rightarrow> nat \<Rightarrow> (SessionLockSurface \<Rightarrow> SessionLockSurface \<times> action list)
     \<Rightarrow> (Context \<times> action list) option" where
  "at_surface ctx p f =
     (case map_of (objects ctx) p of
        Some (SurfaceProxy s) \<Rightarrow>
          (let (s', t) = f s in Some (ctx\<lparr>objects := store p (SurfaceProxy s') (objects ctx)\<rparr>, t))
      | _ \<Rightarrow> None)"

definition deliver :: "Context \<Rightarrow> nat \<Rightarrow> Event \<Rightarrow> fault + (Context \<times> Event \<times> action list)" where
  "deliver ctx i event =
     (case map_of (objects ctx) i of
        None \<Rightarrow> Inr (ctx, event, [])
      | Some ForeignProxy \<Rightarrow> Inr (ctx, event, [])
      | Some (ManagerProxy m) \<Rightarrow>
          (let (m', event', t) = SessionLockManager_Dispatch m event
           in Inr (ctx\<lparr>objects := store i (ManagerProxy m') (objects ctx)\<rparr>, event', t))
      | Some (LockProxy l) \<Rightarrow>
          (let (l', event', t) = SessionLock_Dispatch l event
           in Inr (ctx\<lparr>objects := store i (LockProxy l') (objects ctx)\<rparr>, event', t))
      | Some (SurfaceProxy s) \<Rightarrow>
          (case SessionLockSurface_Dispatch s event of
             Inl e \<Rightarrow> Inl e
           | Inr (s', event', t) \<Rightarrow>
               Inr (ctx\<lparr>objects := store i (SurfaceProxy s') (objects ctx)\<rparr>, event', t)))"

section \<open>Sequences of operations on one object\<close>






fun is_handle :: "action \<Rightarrow> bool" where
  "is_handle (HandleSessionLockLocked g ev) = True"
| "is_handle (HandleSessionLockFinished g ev) = True"
| "is_handle (HandleSessionLockSurfaceConfigure g ev) = True"
| "is_handle a = False"

definition invocations :: "action list \<Rightarrow> action list" where
  "invocations t = filter is_handle t"











lemmas opcode_defs =
  ManagerRequestDestroy_def ManagerRequestLock_def
  LockRequestDestroy_def LockRequestGetLockSurface_def LockRequestUnlockAndDestroy_def
  LockEventLocked_def LockEventFinished_def
  SurfaceRequestDestroy_def SurfaceRequestAckConfigure_def SurfaceEventConfigure_def

section \<open>Removing a handler\<close>







lemma panics_append:
  "panics h (xs @ ys) = (panics h xs \<or> panics h ys)"
  by (cases h) (simp_all add: panics_def)













section \<open>Dispatch\<close>

lemma invocations_append: "invocations (xs @ ys) = invocations xs @ invocations ys"
  by (simp add: invocations_def)

lemma invocations_locked:
  "invocations (map (\<lambda>h. HandleSessionLockLocked h ev) hs) = map (\<lambda>h. HandleSessionLockLocked h ev) hs"
  by (induction hs) (simp_all add: invocations_def)

lemma invocations_finished:
  "invocations (map (\<lambda>h. HandleSessionLockFinished h ev) hs) = map (\<lambda>h. HandleSessionLockFinished h ev) hs"
  by (induction hs) (simp_all add: invocations_def)

lemma invocations_configure:
  "invocations (map (\<lambda>h. HandleSessionLockSurfaceConfigure h ev) hs) =
     map (\<lambda>h. HandleSessionLockSurfaceConfigure h ev) hs"
  by (induction hs) (simp_all add: invocations_def)

lemma SessionLock_Dispatch_locked:
  "Opcode event = 0 \<Longrightarrow> SessionLock_Dispatch l event =
     (l, event,
      if privateSessionLockLocked l = [] then [Len SessionLockLockedHandler]
      else [Len SessionLockLockedHandler, Construct SessionLockLockedEvent, RLock]
           @ map (\<lambda>h. HandleSessionLockLocked h SessionLockLockedEvent) (privateSessionLockLocked l)
           @ [RUnlock])"
  by (simp add: SessionLock_Dispatch_def LockEventLocked_def)

lemma SessionLock_Dispatch_finished:
  "Opcode event = 1 \<Longrightarrow> SessionLock_Dispatch l event =
     (l, event,
      if privateSessionLockFinished l = [] then [Len SessionLockFinishedHandler]
      else [Len SessionLockFinishedHandler, Construct SessionLockFinishedEvent, RLock]
           @ map (\<lambda>h. HandleSessionLockFinished h SessionLockFinishedEvent) (privateSessionLockFinished l)
           @ [RUnlock])"
  by (simp add: SessionLock_Dispatch_def LockEventLocked_def LockEventFinished_def)

lemma SessionLock_Dispatch_unknown:
  "Opcode event \<noteq> 0 \<Longrightarrow> Opcode event \<noteq> 1 \<Longrightarrow> SessionLock_Dispatch l event = (l, event, [])"
  by (simp add: SessionLock_Dispatch_def LockEventLocked_def LockEventFinished_def)

lemma SessionLockSurface_Dispatch_unknown:
  "Opcode event \<noteq> 0 \<Longrightarrow> SessionLockSurface_Dispatch s event = Inr (s, event, [])"
  by (simp add: SessionLockSurface_Dispatch_def SurfaceEventConfigure_def)

lemma SessionLockSurface_Dispatch_empty:
  "Opcode event = 0 \<Longrightarrow> privateSessionLockSurfaceConfigure s = [] \<Longrightarrow>
     SessionLockSurface_Dispatch s event = Inr (s, event, [Len SessionLockSurfaceConfigureHandler])"
  by (simp add: SessionLockSurface_Dispatch_def SurfaceEventConfigure_def)

lemma SessionLockSurface_Dispatch_configure:
  "Opcode event = 0 \<Longrightarrow> privateSessionLockSurfaceConfigure s \<noteq> [] \<Longrightarrow>
   payload event = serial # width # height # rest \<Longrightarrow>
     SessionLockSurface_Dispatch s event =
       Inr (s, event\<lparr>payload := rest\<rparr>,
         [Len SessionLockSurfaceConfigureHandler,
          Construct (SessionLockSurfaceConfigureEvent 0 0 0),
          Uint32 serial, Uint32 width, Uint32 height, RLock]
         @ map (\<lambda>h. HandleSessionLockSurfaceConfigure h
                  (SessionLockSurfaceConfigureEvent serial width height))
             (privateSessionLockSurfaceConfigure s)
         @ [RUnlock])"
  by (simp add: SessionLockSurface_Dispatch_def SurfaceEventConfigure_def Event_Uint32_def)

text \<open>
  Claim C5. An event whose opcode the object does not handle (neither 0 nor 1 for a
  \<open>SessionLock\<close>, not 0 for a \<open>SessionLockSurface\<close>, any opcode for a
  \<open>SessionLockManager\<close>) is dispatched without any action: no handler is called, no
  lock is taken, nothing is read from the payload, there is no fault, and the object
  and the event are as before.
\<close>

theorem Dispatch_unknown_opcode:
  "(Opcode event \<noteq> 0 \<and> Opcode event \<noteq> 1 \<longrightarrow> SessionLock_Dispatch l event = (l, event, []))
   \<and> (Opcode event \<noteq> 0 \<longrightarrow> SessionLockSurface_Dispatch s event = Inr (s, event, []))
   \<and> SessionLockManager_Dispatch m event = (m, event, [])"
  by (simp add: SessionLock_Dispatch_unknown SessionLockSurface_Dispatch_unknown
      SessionLockManager_Dispatch_def)

text \<open>The theorem at opcode 2, on objects that have listeners.\<close>

theorem Dispatch_unknown_opcode_witness:
  "SessionLock_Dispatch
     \<lparr>privateSessionLockLocked = [Dyn 1 []], privateSessionLockFinished = [Dyn 2 []]\<rparr>
     \<lparr>Opcode = 2, payload = [5]\<rparr>
    = (\<lparr>privateSessionLockLocked = [Dyn 1 []], privateSessionLockFinished = [Dyn 2 []]\<rparr>,
       \<lparr>Opcode = 2, payload = [5]\<rparr>, [])
   \<and> SessionLockSurface_Dispatch \<lparr>privateSessionLockSurfaceConfigure = [Dyn 1 []]\<rparr>
        \<lparr>Opcode = 2, payload = [5]\<rparr>
    = Inr (\<lparr>privateSessionLockSurfaceConfigure = [Dyn 1 []]\<rparr>, \<lparr>Opcode = 2, payload = [5]\<rparr>, [])
   \<and> SessionLockManager_Dispatch SessionLockManager \<lparr>Opcode = 2, payload = [5]\<rparr>
    = (SessionLockManager, \<lparr>Opcode = 2, payload = [5]\<rparr>, [])"
  using Dispatch_unknown_opcode [of "\<lparr>Opcode = 2, payload = [5]\<rparr>"
      "\<lparr>privateSessionLockLocked = [Dyn 1 []], privateSessionLockFinished = [Dyn 2 []]\<rparr>"
      "\<lparr>privateSessionLockSurfaceConfigure = [Dyn 1 []]\<rparr>" SessionLockManager]
  by simp

text \<open>
  Claim C9. When the listener slice of the event is empty, \<open>Dispatch\<close> does nothing but
  test its length: it reads no payload field (the event is returned as it came, for a
  configure event too), builds no event struct and does not touch the mutex. Whenever
  \<open>Dispatch\<close> takes the read lock, the length test precedes it.
\<close>

theorem Dispatch_no_listener:
  "(Opcode event = 0 \<and> privateSessionLockLocked l = [] \<longrightarrow>
      SessionLock_Dispatch l event = (l, event, [Len SessionLockLockedHandler]))
   \<and> (Opcode event = 1 \<and> privateSessionLockFinished l = [] \<longrightarrow>
      SessionLock_Dispatch l event = (l, event, [Len SessionLockFinishedHandler]))
   \<and> (Opcode event = 0 \<and> privateSessionLockSurfaceConfigure s = [] \<longrightarrow>
      SessionLockSurface_Dispatch s event = Inr (s, event, [Len SessionLockSurfaceConfigureHandler]))
   \<and> (RLock \<in> set (snd (snd (SessionLock_Dispatch l event))) \<longrightarrow>
        (\<exists>I. Len I \<in> set (takeWhile (\<lambda>a. a \<noteq> RLock) (snd (snd (SessionLock_Dispatch l event))))))
   \<and> (SessionLockSurface_Dispatch s event = Inr (s', event', t) \<and> RLock \<in> set t \<longrightarrow>
        (\<exists>I. Len I \<in> set (takeWhile (\<lambda>a. a \<noteq> RLock) t)))"
proof -
  have 1: "Opcode event = 0 \<and> privateSessionLockLocked l = [] \<longrightarrow>
      SessionLock_Dispatch l event = (l, event, [Len SessionLockLockedHandler])"
    by (simp add: SessionLock_Dispatch_locked)
  have 2: "Opcode event = 1 \<and> privateSessionLockFinished l = [] \<longrightarrow>
      SessionLock_Dispatch l event = (l, event, [Len SessionLockFinishedHandler])"
    by (simp add: SessionLock_Dispatch_finished)
  have 3: "Opcode event = 0 \<and> privateSessionLockSurfaceConfigure s = [] \<longrightarrow>
      SessionLockSurface_Dispatch s event = Inr (s, event, [Len SessionLockSurfaceConfigureHandler])"
    by (simp add: SessionLockSurface_Dispatch_empty)
  have 4: "RLock \<in> set (snd (snd (SessionLock_Dispatch l event))) \<longrightarrow>
        (\<exists>I. Len I \<in> set (takeWhile (\<lambda>a. a \<noteq> RLock) (snd (snd (SessionLock_Dispatch l event)))))"
    by (auto simp: SessionLock_Dispatch_def)
  have 5: "SessionLockSurface_Dispatch s event = Inr (s', event', t) \<and> RLock \<in> set t \<longrightarrow>
        (\<exists>I. Len I \<in> set (takeWhile (\<lambda>a. a \<noteq> RLock) t))"
    by (auto simp: SessionLockSurface_Dispatch_def split: if_splits option.splits)
  show ?thesis by (intro conjI 1 2 3 4 5)
qed

text \<open>
  The theorem at objects without listeners for the event, and at objects with a listener,
  where the read lock is taken.
\<close>

theorem Dispatch_no_listener_witness:
  "SessionLock_Dispatch \<lparr>privateSessionLockLocked = [], privateSessionLockFinished = [Dyn 1 []]\<rparr>
      \<lparr>Opcode = 0, payload = [7, 1920, 1080]\<rparr>
    = (\<lparr>privateSessionLockLocked = [], privateSessionLockFinished = [Dyn 1 []]\<rparr>,
       \<lparr>Opcode = 0, payload = [7, 1920, 1080]\<rparr>, [Len SessionLockLockedHandler])
   \<and> SessionLock_Dispatch \<lparr>privateSessionLockLocked = [Dyn 1 []], privateSessionLockFinished = []\<rparr>
      \<lparr>Opcode = 1, payload = []\<rparr>
    = (\<lparr>privateSessionLockLocked = [Dyn 1 []], privateSessionLockFinished = []\<rparr>,
       \<lparr>Opcode = 1, payload = []\<rparr>, [Len SessionLockFinishedHandler])
   \<and> SessionLockSurface_Dispatch \<lparr>privateSessionLockSurfaceConfigure = []\<rparr>
      \<lparr>Opcode = 0, payload = [7, 1920, 1080]\<rparr>
    = Inr (\<lparr>privateSessionLockSurfaceConfigure = []\<rparr>,
        \<lparr>Opcode = 0, payload = [7, 1920, 1080]\<rparr>, [Len SessionLockSurfaceConfigureHandler])
   \<and> RLock \<in> set (snd (snd (SessionLock_Dispatch
        \<lparr>privateSessionLockLocked = [Dyn 1 []], privateSessionLockFinished = []\<rparr>
        \<lparr>Opcode = 0, payload = [7, 1920, 1080]\<rparr>)))
   \<and> (\<exists>I. Len I \<in> set (takeWhile (\<lambda>a. a \<noteq> RLock) (snd (snd (SessionLock_Dispatch
        \<lparr>privateSessionLockLocked = [Dyn 1 []], privateSessionLockFinished = []\<rparr>
        \<lparr>Opcode = 0, payload = [7, 1920, 1080]\<rparr>)))))
   \<and> SessionLockSurface_Dispatch \<lparr>privateSessionLockSurfaceConfigure = [Dyn 1 []]\<rparr>
        \<lparr>Opcode = 0, payload = [7, 1920, 1080]\<rparr>
    = Inr (\<lparr>privateSessionLockSurfaceConfigure = [Dyn 1 []]\<rparr>, \<lparr>Opcode = 0, payload = []\<rparr>,
        [Len SessionLockSurfaceConfigureHandler,
         Construct (SessionLockSurfaceConfigureEvent 0 0 0),
         Uint32 7, Uint32 1920, Uint32 1080, RLock,
         HandleSessionLockSurfaceConfigure (Dyn 1 []) (SessionLockSurfaceConfigureEvent 7 1920 1080),
         RUnlock])
   \<and> (\<exists>I. Len I \<in> set (takeWhile (\<lambda>a. a \<noteq> RLock)
        [Len SessionLockSurfaceConfigureHandler,
         Construct (SessionLockSurfaceConfigureEvent 0 0 0),
         Uint32 7, Uint32 1920, Uint32 1080, RLock,
         HandleSessionLockSurfaceConfigure (Dyn 1 []) (SessionLockSurfaceConfigureEvent 7 1920 1080),
         RUnlock]))"
  using
    Dispatch_no_listener [of "\<lparr>Opcode = 0, payload = [7, 1920, 1080]\<rparr>"
      "\<lparr>privateSessionLockLocked = [], privateSessionLockFinished = [Dyn 1 []]\<rparr>"
      "\<lparr>privateSessionLockSurfaceConfigure = []\<rparr>"
      "\<lparr>privateSessionLockSurfaceConfigure = []\<rparr>"
      "\<lparr>Opcode = 0, payload = [7, 1920, 1080]\<rparr>" "[Len SessionLockSurfaceConfigureHandler]"]
    Dispatch_no_listener [of "\<lparr>Opcode = 1, payload = []\<rparr>"
      "\<lparr>privateSessionLockLocked = [Dyn 1 []], privateSessionLockFinished = []\<rparr>"
      "\<lparr>privateSessionLockSurfaceConfigure = []\<rparr>"
      "\<lparr>privateSessionLockSurfaceConfigure = []\<rparr>"
      "\<lparr>Opcode = 1, payload = []\<rparr>" "[]"]
    Dispatch_no_listener [of "\<lparr>Opcode = 0, payload = [7, 1920, 1080]\<rparr>"
      "\<lparr>privateSessionLockLocked = [Dyn 1 []], privateSessionLockFinished = []\<rparr>"
      "\<lparr>privateSessionLockSurfaceConfigure = [Dyn 1 []]\<rparr>"
      "\<lparr>privateSessionLockSurfaceConfigure = [Dyn 1 []]\<rparr>"
      "\<lparr>Opcode = 0, payload = []\<rparr>"
      "[Len SessionLockSurfaceConfigureHandler,
         Construct (SessionLockSurfaceConfigureEvent 0 0 0),
         Uint32 7, Uint32 1920, Uint32 1080, RLock,
         HandleSessionLockSurfaceConfigure (Dyn 1 []) (SessionLockSurfaceConfigureEvent 7 1920 1080),
         RUnlock]"]
  by (simp add: SessionLock_Dispatch_def LockEventLocked_def SessionLockSurface_Dispatch_configure)

text \<open>
  Claim C3 says that a dispatch with opcode 0 on a \<open>SessionLockSurface\<close> decodes
  exactly three payload fields, and that a dispatch on a \<open>SessionLock\<close> synthesizes the
  event. Each case of \<open>Dispatch\<close> is guarded by the length of the listener slice: on an
  object without listener for the event nothing is decoded, the payload is left as it
  came, and no event is built.
\<close>

theorem Dispatch_decodes_counterexample:
  "SessionLockSurface_Dispatch \<lparr>privateSessionLockSurfaceConfigure = []\<rparr>
      \<lparr>Opcode = 0, payload = [7, 1920, 1080]\<rparr>
    = Inr (\<lparr>privateSessionLockSurfaceConfigure = []\<rparr>,
        \<lparr>Opcode = 0, payload = [7, 1920, 1080]\<rparr>,
        [Len SessionLockSurfaceConfigureHandler])
   \<and> SessionLock_Dispatch \<lparr>privateSessionLockLocked = [], privateSessionLockFinished = []\<rparr>
      \<lparr>Opcode = 0, payload = []\<rparr>
    = (\<lparr>privateSessionLockLocked = [], privateSessionLockFinished = []\<rparr>,
       \<lparr>Opcode = 0, payload = []\<rparr>, [Len SessionLockLockedHandler])"
  by (simp add: SessionLockSurface_Dispatch_empty SessionLock_Dispatch_locked)

text \<open>
  Claim C3, amended. Decoding is fixed by object type and opcode, and takes place when
  the object has a listener for the event. A \<open>SessionLock\<close> with a locked handler
  builds, on opcode 0, the empty locked event and calls its locked handlers with it;
  with a finished handler it builds, on opcode 1, the empty finished event and calls
  its finished handlers with it. A \<open>SessionLockSurface\<close> with a configure handler
  reads, on opcode 0, exactly the next three payload fields, as serial, width and
  height in this order, and calls every configure handler with an event of these three
  values. In each case the handlers called are those of the slice, in slice order, and
  nothing else is called.
\<close>

theorem Dispatch_decodes:
  "(Opcode event = 0 \<and> privateSessionLockLocked l \<noteq> [] \<longrightarrow>
      SessionLock_Dispatch l event =
        (l, event,
         [Len SessionLockLockedHandler, Construct SessionLockLockedEvent, RLock]
         @ map (\<lambda>h. HandleSessionLockLocked h SessionLockLockedEvent) (privateSessionLockLocked l)
         @ [RUnlock]))
   \<and> (Opcode event = 1 \<and> privateSessionLockFinished l \<noteq> [] \<longrightarrow>
      SessionLock_Dispatch l event =
        (l, event,
         [Len SessionLockFinishedHandler, Construct SessionLockFinishedEvent, RLock]
         @ map (\<lambda>h. HandleSessionLockFinished h SessionLockFinishedEvent)
             (privateSessionLockFinished l)
         @ [RUnlock]))
   \<and> (Opcode event = 0 \<and> payload event = serial # width # height # rest \<and>
        privateSessionLockSurfaceConfigure s \<noteq> [] \<longrightarrow>
      SessionLockSurface_Dispatch s event =
        Inr (s, event\<lparr>payload := rest\<rparr>,
          [Len SessionLockSurfaceConfigureHandler,
           Construct (SessionLockSurfaceConfigureEvent 0 0 0),
           Uint32 serial, Uint32 width, Uint32 height, RLock]
          @ map (\<lambda>h. HandleSessionLockSurfaceConfigure h
                   (SessionLockSurfaceConfigureEvent serial width height))
              (privateSessionLockSurfaceConfigure s)
          @ [RUnlock]))
   \<and> (Opcode event = 0 \<longrightarrow>
      invocations (snd (snd (SessionLock_Dispatch l event))) =
        map (\<lambda>h. HandleSessionLockLocked h SessionLockLockedEvent) (privateSessionLockLocked l))
   \<and> (Opcode event = 1 \<longrightarrow>
      invocations (snd (snd (SessionLock_Dispatch l event))) =
        map (\<lambda>h. HandleSessionLockFinished h SessionLockFinishedEvent) (privateSessionLockFinished l))
   \<and> (Opcode event = 0 \<and> payload event = serial # width # height # rest \<longrightarrow>
      (case SessionLockSurface_Dispatch s event of
         Inl e \<Rightarrow> False
       | Inr (s', event', t) \<Rightarrow>
           invocations t =
             map (\<lambda>h. HandleSessionLockSurfaceConfigure h
                      (SessionLockSurfaceConfigureEvent serial width height))
               (privateSessionLockSurfaceConfigure s)))"
proof -
  have 1: "Opcode event = 0 \<and> privateSessionLockLocked l \<noteq> [] \<longrightarrow>
      SessionLock_Dispatch l event =
        (l, event,
         [Len SessionLockLockedHandler, Construct SessionLockLockedEvent, RLock]
         @ map (\<lambda>h. HandleSessionLockLocked h SessionLockLockedEvent) (privateSessionLockLocked l)
         @ [RUnlock])"
    by (simp add: SessionLock_Dispatch_locked)
  have 2: "Opcode event = 1 \<and> privateSessionLockFinished l \<noteq> [] \<longrightarrow>
      SessionLock_Dispatch l event =
        (l, event,
         [Len SessionLockFinishedHandler, Construct SessionLockFinishedEvent, RLock]
         @ map (\<lambda>h. HandleSessionLockFinished h SessionLockFinishedEvent)
             (privateSessionLockFinished l)
         @ [RUnlock])"
    by (simp add: SessionLock_Dispatch_finished)
  have 3: "Opcode event = 0 \<and> payload event = serial # width # height # rest \<and>
        privateSessionLockSurfaceConfigure s \<noteq> [] \<longrightarrow>
      SessionLockSurface_Dispatch s event =
        Inr (s, event\<lparr>payload := rest\<rparr>,
          [Len SessionLockSurfaceConfigureHandler,
           Construct (SessionLockSurfaceConfigureEvent 0 0 0),
           Uint32 serial, Uint32 width, Uint32 height, RLock]
          @ map (\<lambda>h. HandleSessionLockSurfaceConfigure h
                   (SessionLockSurfaceConfigureEvent serial width height))
              (privateSessionLockSurfaceConfigure s)
          @ [RUnlock])"
    by (simp add: SessionLockSurface_Dispatch_configure)
  have 4: "Opcode event = 0 \<longrightarrow>
      invocations (snd (snd (SessionLock_Dispatch l event))) =
        map (\<lambda>h. HandleSessionLockLocked h SessionLockLockedEvent) (privateSessionLockLocked l)"
    by (simp add: SessionLock_Dispatch_locked invocations_append invocations_locked)
       (simp add: invocations_def)
  have 5: "Opcode event = 1 \<longrightarrow>
      invocations (snd (snd (SessionLock_Dispatch l event))) =
        map (\<lambda>h. HandleSessionLockFinished h SessionLockFinishedEvent) (privateSessionLockFinished l)"
    by (simp add: SessionLock_Dispatch_finished invocations_append invocations_finished)
       (simp add: invocations_def)
  have 6: "Opcode event = 0 \<and> payload event = serial # width # height # rest \<longrightarrow>
      (case SessionLockSurface_Dispatch s event of
         Inl e \<Rightarrow> False
       | Inr (s', event', t) \<Rightarrow>
           invocations t =
             map (\<lambda>h. HandleSessionLockSurfaceConfigure h
                      (SessionLockSurfaceConfigureEvent serial width height))
               (privateSessionLockSurfaceConfigure s))"
  proof (cases "privateSessionLockSurfaceConfigure s = []")
    case True
    then show ?thesis
      by (simp add: SessionLockSurface_Dispatch_empty invocations_def)
  next
    case False
    then show ?thesis
      by (simp add: SessionLockSurface_Dispatch_configure invocations_append
          invocations_configure)
         (simp add: invocations_def)
  qed
  show ?thesis by (intro conjI 1 2 3 4 5 6)
qed

text \<open>
  The theorem at the payload (7, 1920, 1080) with two configure handlers, and at a lock
  with two locked handlers and one finished handler.
\<close>

theorem Dispatch_decodes_witness:
  "SessionLockSurface_Dispatch \<lparr>privateSessionLockSurfaceConfigure = [Dyn 1 [], Dyn 2 []]\<rparr>
        \<lparr>Opcode = 0, payload = [7, 1920, 1080]\<rparr>
    = Inr (\<lparr>privateSessionLockSurfaceConfigure = [Dyn 1 [], Dyn 2 []]\<rparr>,
        \<lparr>Opcode = 0, payload = []\<rparr>,
        [Len SessionLockSurfaceConfigureHandler,
         Construct (SessionLockSurfaceConfigureEvent 0 0 0),
         Uint32 7, Uint32 1920, Uint32 1080, RLock,
         HandleSessionLockSurfaceConfigure (Dyn 1 []) (SessionLockSurfaceConfigureEvent 7 1920 1080),
         HandleSessionLockSurfaceConfigure (Dyn 2 []) (SessionLockSurfaceConfigureEvent 7 1920 1080),
         RUnlock])
   \<and> SessionLock_Dispatch
      \<lparr>privateSessionLockLocked = [Dyn 1 [], Dyn 2 []], privateSessionLockFinished = [Dyn 3 []]\<rparr>
      \<lparr>Opcode = 0, payload = []\<rparr>
    = (\<lparr>privateSessionLockLocked = [Dyn 1 [], Dyn 2 []], privateSessionLockFinished = [Dyn 3 []]\<rparr>,
       \<lparr>Opcode = 0, payload = []\<rparr>,
       [Len SessionLockLockedHandler, Construct SessionLockLockedEvent, RLock,
        HandleSessionLockLocked (Dyn 1 []) SessionLockLockedEvent,
        HandleSessionLockLocked (Dyn 2 []) SessionLockLockedEvent, RUnlock])
   \<and> SessionLock_Dispatch
      \<lparr>privateSessionLockLocked = [Dyn 1 [], Dyn 2 []], privateSessionLockFinished = [Dyn 3 []]\<rparr>
      \<lparr>Opcode = 1, payload = []\<rparr>
    = (\<lparr>privateSessionLockLocked = [Dyn 1 [], Dyn 2 []], privateSessionLockFinished = [Dyn 3 []]\<rparr>,
       \<lparr>Opcode = 1, payload = []\<rparr>,
       [Len SessionLockFinishedHandler, Construct SessionLockFinishedEvent, RLock,
        HandleSessionLockFinished (Dyn 3 []) SessionLockFinishedEvent, RUnlock])"
  using
    Dispatch_decodes [of "\<lparr>Opcode = 0, payload = [7, 1920, 1080]\<rparr>"
      "\<lparr>privateSessionLockLocked = [Dyn 1 [], Dyn 2 []], privateSessionLockFinished = [Dyn 3 []]\<rparr>"
      7 1920 1080 "[]" "\<lparr>privateSessionLockSurfaceConfigure = [Dyn 1 [], Dyn 2 []]\<rparr>"]
    Dispatch_decodes [of "\<lparr>Opcode = 0, payload = []\<rparr>"
      "\<lparr>privateSessionLockLocked = [Dyn 1 [], Dyn 2 []], privateSessionLockFinished = [Dyn 3 []]\<rparr>"
      7 1920 1080 "[]" "\<lparr>privateSessionLockSurfaceConfigure = [Dyn 1 [], Dyn 2 []]\<rparr>"]
    Dispatch_decodes [of "\<lparr>Opcode = 1, payload = []\<rparr>"
      "\<lparr>privateSessionLockLocked = [Dyn 1 [], Dyn 2 []], privateSessionLockFinished = [Dyn 3 []]\<rparr>"
      7 1920 1080 "[]" "\<lparr>privateSessionLockSurfaceConfigure = [Dyn 1 [], Dyn 2 []]\<rparr>"]
  by simp

section \<open>The listener helpers\<close>

lemma type_assert_Some:
  "type_assert I (Some v) = (if I \<in> set (implements v) then (Some v, True) else (None, False))"
  by (simp add: type_assert_def)

lemma type_assert_None: "type_assert I None = (None, False)"
  by (simp add: type_assert_def)

text \<open>
  Claim C10. \<open>SessionLockAddListener\<close> appends the value to the locked handlers exactly
  when its dynamic type implements \<open>SessionLockLockedHandler\<close> and, independently, to
  the finished handlers exactly when it implements \<open>SessionLockFinishedHandler\<close>; a
  value that implements neither, and the nil value, leave the object as it was.
  \<open>SessionLockSurfaceAddListener\<close> does the same for the configure handlers, and
  \<open>SessionLockManagerAddListener\<close> does nothing.
\<close>

theorem AddListener_by_type:
  "privateSessionLockLocked (fst (SessionLockAddListener l (Some v))) =
     (if SessionLockLockedHandler \<in> set (implements v)
      then privateSessionLockLocked l @ [v] else privateSessionLockLocked l)
   \<and> privateSessionLockFinished (fst (SessionLockAddListener l (Some v))) =
     (if SessionLockFinishedHandler \<in> set (implements v)
      then privateSessionLockFinished l @ [v] else privateSessionLockFinished l)
   \<and> (SessionLockLockedHandler \<notin> set (implements v) \<and>
        SessionLockFinishedHandler \<notin> set (implements v) \<longrightarrow>
      SessionLockAddListener l (Some v) = (l, []))
   \<and> SessionLockAddListener l None = (l, [])
   \<and> privateSessionLockSurfaceConfigure (fst (SessionLockSurfaceAddListener s (Some v))) =
     (if SessionLockSurfaceConfigureHandler \<in> set (implements v)
      then privateSessionLockSurfaceConfigure s @ [v] else privateSessionLockSurfaceConfigure s)
   \<and> (SessionLockSurfaceConfigureHandler \<notin> set (implements v) \<longrightarrow>
      SessionLockSurfaceAddListener s (Some v) = (s, []))
   \<and> SessionLockSurfaceAddListener s None = (s, [])
   \<and> SessionLockManagerAddListener m h = (m, [])"
  by (simp add: SessionLockAddListener_def SessionLockSurfaceAddListener_def
      SessionLockManagerAddListener_def type_assert_Some type_assert_None
      AddLockedHandler_def AddFinishedHandler_def AddConfigureHandler_def)

text \<open>
  The theorem at a value that implements both interfaces of the lock, at one that
  implements only the second, and at one that implements only the configure handler.
\<close>

theorem AddListener_by_type_witness:
  "fst (SessionLockAddListener new_SessionLock
      (Some (Dyn 1 [SessionLockLockedHandler, SessionLockFinishedHandler])))
    = \<lparr>privateSessionLockLocked = [Dyn 1 [SessionLockLockedHandler, SessionLockFinishedHandler]],
       privateSessionLockFinished = [Dyn 1 [SessionLockLockedHandler, SessionLockFinishedHandler]]\<rparr>
   \<and> fst (SessionLockAddListener new_SessionLock (Some (Dyn 2 [SessionLockFinishedHandler])))
    = \<lparr>privateSessionLockLocked = [],
       privateSessionLockFinished = [Dyn 2 [SessionLockFinishedHandler]]\<rparr>
   \<and> fst (SessionLockAddListener new_SessionLock (Some (Dyn 3 [SessionLockSurfaceConfigureHandler])))
    = new_SessionLock
   \<and> fst (SessionLockSurfaceAddListener new_SessionLockSurface
        (Some (Dyn 3 [SessionLockSurfaceConfigureHandler])))
    = \<lparr>privateSessionLockSurfaceConfigure = [Dyn 3 [SessionLockSurfaceConfigureHandler]]\<rparr>"
  using
    AddListener_by_type [of new_SessionLock "Dyn 1 [SessionLockLockedHandler, SessionLockFinishedHandler]"
      new_SessionLockSurface SessionLockManager None]
    AddListener_by_type [of new_SessionLock "Dyn 2 [SessionLockFinishedHandler]"
      new_SessionLockSurface SessionLockManager None]
    AddListener_by_type [of new_SessionLock "Dyn 3 [SessionLockSurfaceConfigureHandler]"
      new_SessionLockSurface SessionLockManager None]
  by (simp add: new_SessionLock_def new_SessionLockSurface_def)

section \<open>Requests\<close>

lemma map_of_store: "map_of (store i p al) j = (if j = i then Some p else map_of al j)"
  by (induction al) auto

lemma store_same: "map_of al i = Some p \<Longrightarrow> store i p al = al"
  by (induction al) (auto split: if_splits)

lemma list_all_store:
  "list_all P al \<Longrightarrow> P (i, p) \<Longrightarrow> list_all P (store i p al)"
  by (induction al) auto

lemma ctx_ok_fresh:
  assumes "ctx_ok ctx" and "currentID ctx < i"
  shows "map_of (objects ctx) i = None" and "Registered i \<notin> set (journal ctx)"
proof -
  from assms(1) have a: "\<forall>x \<in> set (objects ctx). fst x \<le> currentID ctx"
    by (auto simp: ctx_ok_def list_all_iff)
  show "map_of (objects ctx) i = None"
  proof (cases "map_of (objects ctx) i")
    case (Some p)
    then have "(i, p) \<in> set (objects ctx)" by (rule map_of_SomeD)
    with a assms(2) show ?thesis by fastforce
  qed simp
  from assms(1) have b: "\<forall>e \<in> set (journal ctx). id_bounded (currentID ctx) e"
    by (simp add: ctx_ok_def list_all_iff)
  show "Registered i \<notin> set (journal ctx)"
  proof
    assume "Registered i \<in> set (journal ctx)"
    with b have "id_bounded (currentID ctx) (Registered i)" by blast
    with assms(2) show False by simp
  qed
qed

lemma id_bounded_mono: "id_bounded n e \<Longrightarrow> n \<le> m \<Longrightarrow> id_bounded m e"
  by (cases e) auto

lemma ctx_ok_Register: "ctx_ok ctx \<Longrightarrow> ctx_ok (fst (Register ctx p))"
  unfolding ctx_ok_def Register_def Let_def
  apply (simp add: list_all_iff)
  apply (intro conjI)
  subgoal
    using list_all_store[of "\<lambda>(i, p). i \<le> Suc (currentID ctx)" "objects ctx" "Suc (currentID ctx)" p]
    by (fastforce simp: list_all_iff)
  subgoal by (auto intro: id_bounded_mono)
  done

lemma ctx_ok_SendRequest: "ctx_ok ctx \<Longrightarrow> ctx_ok (fst (SendRequest ctx p opc as))"
  by (simp add: ctx_ok_def SendRequest_def)

lemma SessionLockManager_Lock_eq:
  "SessionLockManager_Lock ctx m =
    (ctx\<lparr>currentID := Suc (currentID ctx),
         objects := store (Suc (currentID ctx)) (LockProxy new_SessionLock) (objects ctx),
         journal := journal ctx @ [Registered (Suc (currentID ctx)),
           Sent \<lparr>sender = m, opcode = 1, args = [ArgObject (Suc (currentID ctx))]\<rparr>]\<rparr>,
     Suc (currentID ctx), sendError ctx)"
  by (simp add: SessionLockManager_Lock_def NewSessionLock_def Register_def SendRequest_def
      ManagerRequestLock_def)

lemma SessionLock_GetLockSurface_eq:
  "SessionLock_GetLockSurface ctx l surface output =
    (ctx\<lparr>currentID := Suc (currentID ctx),
         objects := store (Suc (currentID ctx)) (SurfaceProxy new_SessionLockSurface) (objects ctx),
         journal := journal ctx @ [Registered (Suc (currentID ctx)),
           Sent \<lparr>sender = l, opcode = 1,
             args = [ArgObject (Suc (currentID ctx)), ArgObject surface, ArgObject output]\<rparr>]\<rparr>,
     Suc (currentID ctx), sendError ctx)"
  by (simp add: SessionLock_GetLockSurface_def NewSessionLockSurface_def Register_def
      SendRequest_def LockRequestGetLockSurface_def)

lemma requests_append: "requests (xs @ ys) = requests xs @ requests ys"
  by (induction xs rule: requests.induct) simp_all

text \<open>
  Claim C1. Each request method hands exactly one request to the transport, with the
  opcode and the arguments of the protocol: the three \<open>Destroy\<close> requests have opcode 0
  and no argument; \<open>Lock\<close> has opcode 1 and the new \<open>SessionLock\<close> as its only
  argument; \<open>GetLockSurface\<close> has opcode 1 and the arguments new
  \<open>SessionLockSurface\<close>, surface, output; \<open>UnlockAndDestroy\<close> has opcode 2 and no
  argument; \<open>AckConfigure\<close> has opcode 1 and the serial as its only argument.
\<close>

theorem requests_as_protocol:
  "journal (fst (SessionLockManager_Destroy ctx m)) =
     journal ctx @ [Sent \<lparr>sender = m, opcode = 0, args = []\<rparr>]
   \<and> (let (ctx', retId, err) = SessionLockManager_Lock ctx m
      in requests (journal ctx') =
           requests (journal ctx) @ [\<lparr>sender = m, opcode = 1, args = [ArgObject retId]\<rparr>]
         \<and> map_of (objects ctx') retId = Some (LockProxy new_SessionLock))
   \<and> journal (fst (SessionLock_Destroy ctx l)) =
     journal ctx @ [Sent \<lparr>sender = l, opcode = 0, args = []\<rparr>]
   \<and> (let (ctx', retId, err) = SessionLock_GetLockSurface ctx l surface output
      in requests (journal ctx') =
           requests (journal ctx) @
             [\<lparr>sender = l, opcode = 1, args = [ArgObject retId, ArgObject surface, ArgObject output]\<rparr>]
         \<and> map_of (objects ctx') retId = Some (SurfaceProxy new_SessionLockSurface))
   \<and> journal (fst (SessionLock_UnlockAndDestroy ctx l)) =
     journal ctx @ [Sent \<lparr>sender = l, opcode = 2, args = []\<rparr>]
   \<and> journal (fst (SessionLockSurface_Destroy ctx s)) =
     journal ctx @ [Sent \<lparr>sender = s, opcode = 0, args = []\<rparr>]
   \<and> journal (fst (SessionLockSurface_AckConfigure ctx s serial)) =
     journal ctx @ [Sent \<lparr>sender = s, opcode = 1, args = [ArgUint32 serial]\<rparr>]"
proof -
  have 1: "let (ctx', retId, err) = SessionLockManager_Lock ctx m
      in requests (journal ctx') =
           requests (journal ctx) @ [\<lparr>sender = m, opcode = 1, args = [ArgObject retId]\<rparr>]
         \<and> map_of (objects ctx') retId = Some (LockProxy new_SessionLock)"
    by (simp add: SessionLockManager_Lock_eq requests_append map_of_store)
  have 2: "let (ctx', retId, err) = SessionLock_GetLockSurface ctx l surface output
      in requests (journal ctx') =
           requests (journal ctx) @
             [\<lparr>sender = l, opcode = 1, args = [ArgObject retId, ArgObject surface, ArgObject output]\<rparr>]
         \<and> map_of (objects ctx') retId = Some (SurfaceProxy new_SessionLockSurface)"
    by (simp add: SessionLock_GetLockSurface_eq requests_append map_of_store)
  have 3: "journal (fst (SessionLockManager_Destroy ctx m)) =
     journal ctx @ [Sent \<lparr>sender = m, opcode = 0, args = []\<rparr>]"
    "journal (fst (SessionLock_Destroy ctx l)) =
     journal ctx @ [Sent \<lparr>sender = l, opcode = 0, args = []\<rparr>]"
    "journal (fst (SessionLock_UnlockAndDestroy ctx l)) =
     journal ctx @ [Sent \<lparr>sender = l, opcode = 2, args = []\<rparr>]"
    "journal (fst (SessionLockSurface_Destroy ctx s)) =
     journal ctx @ [Sent \<lparr>sender = s, opcode = 0, args = []\<rparr>]"
    "journal (fst (SessionLockSurface_AckConfigure ctx s serial)) =
     journal ctx @ [Sent \<lparr>sender = s, opcode = 1, args = [ArgUint32 serial]\<rparr>]"
    by (simp_all add: SessionLockManager_Destroy_def SessionLock_Destroy_def
        SessionLock_UnlockAndDestroy_def SessionLockSurface_Destroy_def
        SessionLockSurface_AckConfigure_def SendRequest_def opcode_defs)
  show ?thesis by (intro conjI 1 2 3)
qed

section \<open>Child proxies\<close>

lemma SessionLock_Dispatch_receiver: "fst (SessionLock_Dispatch l event) = l"
  by (simp add: SessionLock_Dispatch_def)

lemma SessionLockSurface_Dispatch_receiver:
  "SessionLockSurface_Dispatch s event = Inr (s', event', t) \<Longrightarrow> s' = s"
  by (auto simp: SessionLockSurface_Dispatch_def split: if_splits option.splits)

lemma deliver_lock:
  assumes "map_of (objects ctx) i = Some (LockProxy l)"
  shows "deliver ctx i event = Inr (ctx, snd (SessionLock_Dispatch l event))"
proof -
  obtain l' event' t where d: "SessionLock_Dispatch l event = (l', event', t)"
    by (cases "SessionLock_Dispatch l event") auto
  with SessionLock_Dispatch_receiver[of l event] have "l' = l" by simp
  with assms d show ?thesis by (simp add: deliver_def store_same)
qed

lemma deliver_surface:
  assumes "map_of (objects ctx) i = Some (SurfaceProxy s)"
  shows "deliver ctx i event =
    (case SessionLockSurface_Dispatch s event of
       Inl e \<Rightarrow> Inl e
     | Inr (s', event', t) \<Rightarrow> Inr (ctx, event', t))"
proof (cases "SessionLockSurface_Dispatch s event")
  case (Inl e)
  with assms show ?thesis by (simp add: deliver_def)
next
  case (Inr r)
  obtain s' event' t where r: "r = (s', event', t)" by (cases r) auto
  with Inr SessionLockSurface_Dispatch_receiver have "s' = s" by blast
  with assms Inr r show ?thesis by (simp add: deliver_def store_same)
qed

lemma ctx_ok_SessionLockManager_Lock:
  assumes "ctx_ok ctx"
  shows "ctx_ok (fst (SessionLockManager_Lock ctx m))"
proof -
  have "fst (SessionLockManager_Lock ctx m) =
      fst (SendRequest (fst (Register ctx (LockProxy new_SessionLock))) m ManagerRequestLock
        [ArgObject (snd (Register ctx (LockProxy new_SessionLock)))])"
    by (simp add: SessionLockManager_Lock_def NewSessionLock_def split: prod.splits)
  with ctx_ok_SendRequest[OF ctx_ok_Register[OF assms]] show ?thesis by simp
qed

lemma ctx_ok_SessionLock_GetLockSurface:
  assumes "ctx_ok ctx"
  shows "ctx_ok (fst (SessionLock_GetLockSurface ctx l surface output))"
proof -
  have "fst (SessionLock_GetLockSurface ctx l surface output) =
      fst (SendRequest (fst (Register ctx (SurfaceProxy new_SessionLockSurface))) l
        LockRequestGetLockSurface
        [ArgObject (snd (Register ctx (SurfaceProxy new_SessionLockSurface))),
         ArgObject surface, ArgObject output])"
    by (simp add: SessionLock_GetLockSurface_def NewSessionLockSurface_def split: prod.splits)
  with ctx_ok_SendRequest[OF ctx_ok_Register[OF assms]] show ?thesis by simp
qed

text \<open>
  Claim C7. When the transport fails, \<open>Lock\<close> and \<open>GetLockSurface\<close> return that
  error together with the child proxy, which is registered as on a successful send: the
  registry, the ID counter and the returned proxy are those of the same call on a
  working transport, no other proxy is changed, and the request was handed to the
  transport once.
\<close>

theorem send_failure:
  "sendError ctx = Some e \<longrightarrow>
     (let (ctx', retId, err) = SessionLockManager_Lock ctx m
      in err = Some e
         \<and> map_of (objects ctx') retId = Some (LockProxy new_SessionLock)
         \<and> (objects ctx', currentID ctx', retId) =
             (let (c, r, x) = SessionLockManager_Lock (ctx\<lparr>sendError := None\<rparr>) m
              in (objects c, currentID c, r))
         \<and> (\<forall>i. i \<noteq> retId \<longrightarrow> map_of (objects ctx') i = map_of (objects ctx) i)
         \<and> requests (journal ctx') =
             requests (journal ctx) @ [\<lparr>sender = m, opcode = 1, args = [ArgObject retId]\<rparr>])
     \<and> (let (ctx', retId, err) = SessionLock_GetLockSurface ctx l surface output
      in err = Some e
         \<and> map_of (objects ctx') retId = Some (SurfaceProxy new_SessionLockSurface)
         \<and> (objects ctx', currentID ctx', retId) =
             (let (c, r, x) = SessionLock_GetLockSurface (ctx\<lparr>sendError := None\<rparr>) l surface output
              in (objects c, currentID c, r))
         \<and> (\<forall>i. i \<noteq> retId \<longrightarrow> map_of (objects ctx') i = map_of (objects ctx) i)
         \<and> requests (journal ctx') =
             requests (journal ctx) @
               [\<lparr>sender = l, opcode = 1,
                 args = [ArgObject retId, ArgObject surface, ArgObject output]\<rparr>])"
  by (simp add: SessionLockManager_Lock_eq SessionLock_GetLockSurface_eq map_of_store
      requests_append)

text \<open>The theorem at a context whose transport fails with error 32.\<close>

theorem send_failure_witness:
  "SessionLockManager_Lock
      \<lparr>currentID = 1, objects = [(1, ManagerProxy SessionLockManager)],
        journal = [Registered 1], sendError = Some (SendFailed 32)\<rparr> 1
    = (\<lparr>currentID = 2,
        objects = [(1, ManagerProxy SessionLockManager), (2, LockProxy new_SessionLock)],
        journal = [Registered 1, Registered 2,
                   Sent \<lparr>sender = 1, opcode = 1, args = [ArgObject 2]\<rparr>],
        sendError = Some (SendFailed 32)\<rparr>, 2, Some (SendFailed 32))
   \<and> snd (snd (SessionLock_GetLockSurface
      \<lparr>currentID = 1, objects = [(1, ManagerProxy SessionLockManager)],
        journal = [Registered 1], sendError = Some (SendFailed 32)\<rparr> 1 5 6))
     = Some (SendFailed 32)"
  using send_failure [of
      "\<lparr>currentID = 1, objects = [(1, ManagerProxy SessionLockManager)],
        journal = [Registered 1], sendError = Some (SendFailed 32)\<rparr>" "SendFailed 32" 1 1 5 6]
  by (simp add: SessionLockManager_Lock_eq SessionLock_GetLockSurface_eq)

lemma at_lock_registered:
  "map_of (objects ctx) p = Some (LockProxy l) \<Longrightarrow>
     at_lock ctx p f = Some (ctx\<lparr>objects := store p (LockProxy (fst (f l))) (objects ctx)\<rparr>, snd (f l))"
  by (simp add: at_lock_def split: prod.splits)

lemma at_surface_registered:
  "map_of (objects ctx) p = Some (SurfaceProxy s) \<Longrightarrow>
     at_surface ctx p f =
       Some (ctx\<lparr>objects := store p (SurfaceProxy (fst (f s))) (objects ctx)\<rparr>, snd (f s))"
  by (simp add: at_surface_def split: prod.splits)

lemma Lock_child:
  assumes "ctx_ok ctx" and "SessionLockManager_Lock ctx m = (ctx', retId, err)"
  shows "map_of (objects ctx) retId = None"
    and "Registered retId \<notin> set (journal ctx)"
    and "journal ctx' = journal ctx @
          [Registered retId, Sent \<lparr>sender = m, opcode = 1, args = [ArgObject retId]\<rparr>]"
    and "map_of (objects ctx') retId = Some (LockProxy new_SessionLock)"
    and "ctx_ok ctx'"
    and "deliver ctx' retId event = Inr (ctx', snd (SessionLock_Dispatch new_SessionLock event))"
    and "case at_lock ctx' retId (\<lambda>l. AddLockedHandler l (Some h)) of
           None \<Rightarrow> False
         | Some (ctx'', t) \<Rightarrow>
             deliver ctx'' retId \<lparr>Opcode = 0, payload = []\<rparr> =
               Inr (ctx'', \<lparr>Opcode = 0, payload = []\<rparr>,
                 [Len SessionLockLockedHandler, Construct SessionLockLockedEvent, RLock,
                  HandleSessionLockLocked h SessionLockLockedEvent, RUnlock])"
proof -
  from assms(2) have r: "retId = Suc (currentID ctx)" and j: "journal ctx' = journal ctx @
          [Registered retId, Sent \<lparr>sender = m, opcode = 1, args = [ArgObject retId]\<rparr>]"
    and o: "map_of (objects ctx') retId = Some (LockProxy new_SessionLock)"
    by (auto simp: SessionLockManager_Lock_eq map_of_store)
  from r ctx_ok_fresh[OF assms(1), of retId]
  show "map_of (objects ctx) retId = None" "Registered retId \<notin> set (journal ctx)" by simp_all
  show "journal ctx' = journal ctx @
          [Registered retId, Sent \<lparr>sender = m, opcode = 1, args = [ArgObject retId]\<rparr>]" by (rule j)
  show "map_of (objects ctx') retId = Some (LockProxy new_SessionLock)" by (rule o)
  from ctx_ok_SessionLockManager_Lock[OF assms(1), of m] assms(2) show "ctx_ok ctx'" by simp
  show "deliver ctx' retId event = Inr (ctx', snd (SessionLock_Dispatch new_SessionLock event))"
    by (rule deliver_lock[OF o])
  let ?l = "fst (AddLockedHandler new_SessionLock (Some h))"
  let ?c = "ctx'\<lparr>objects := store retId (LockProxy ?l) (objects ctx')\<rparr>"
  have a: "at_lock ctx' retId (\<lambda>l. AddLockedHandler l (Some h)) =
      Some (?c, snd (AddLockedHandler new_SessionLock (Some h)))"
    by (rule at_lock_registered[OF o])
  have "map_of (objects ?c) retId = Some (LockProxy ?l)" by (simp add: map_of_store)
  from deliver_lock[OF this, of "\<lparr>Opcode = 0, payload = []\<rparr>"]
  have "deliver ?c retId \<lparr>Opcode = 0, payload = []\<rparr> =
               Inr (?c, \<lparr>Opcode = 0, payload = []\<rparr>,
                 [Len SessionLockLockedHandler, Construct SessionLockLockedEvent, RLock,
                  HandleSessionLockLocked h SessionLockLockedEvent, RUnlock])"
    by (simp add: SessionLock_Dispatch_locked AddLockedHandler_def new_SessionLock_def)
  with a show "case at_lock ctx' retId (\<lambda>l. AddLockedHandler l (Some h)) of
           None \<Rightarrow> False
         | Some (ctx'', t) \<Rightarrow>
             deliver ctx'' retId \<lparr>Opcode = 0, payload = []\<rparr> =
               Inr (ctx'', \<lparr>Opcode = 0, payload = []\<rparr>,
                 [Len SessionLockLockedHandler, Construct SessionLockLockedEvent, RLock,
                  HandleSessionLockLocked h SessionLockLockedEvent, RUnlock])"
    by simp
qed

lemma GetLockSurface_child:
  assumes "ctx_ok ctx" and "SessionLock_GetLockSurface ctx l surface output = (ctx', retId, err)"
  shows "map_of (objects ctx) retId = None"
    and "Registered retId \<notin> set (journal ctx)"
    and "journal ctx' = journal ctx @
          [Registered retId,
           Sent \<lparr>sender = l, opcode = 1,
             args = [ArgObject retId, ArgObject surface, ArgObject output]\<rparr>]"
    and "map_of (objects ctx') retId = Some (SurfaceProxy new_SessionLockSurface)"
    and "ctx_ok ctx'"
    and "deliver ctx' retId event =
          (case SessionLockSurface_Dispatch new_SessionLockSurface event of
             Inl e \<Rightarrow> Inl e
           | Inr (s', event', t) \<Rightarrow> Inr (ctx', event', t))"
    and "case at_surface ctx' retId (\<lambda>s. AddConfigureHandler s (Some h)) of
           None \<Rightarrow> False
         | Some (ctx'', t) \<Rightarrow>
             deliver ctx'' retId \<lparr>Opcode = 0, payload = [serial, width, height]\<rparr> =
               Inr (ctx'', \<lparr>Opcode = 0, payload = []\<rparr>,
                 [Len SessionLockSurfaceConfigureHandler,
                  Construct (SessionLockSurfaceConfigureEvent 0 0 0),
                  Uint32 serial, Uint32 width, Uint32 height, RLock,
                  HandleSessionLockSurfaceConfigure h
                    (SessionLockSurfaceConfigureEvent serial width height),
                  RUnlock])"
proof -
  from assms(2) have r: "retId = Suc (currentID ctx)" and j: "journal ctx' = journal ctx @
          [Registered retId,
           Sent \<lparr>sender = l, opcode = 1,
             args = [ArgObject retId, ArgObject surface, ArgObject output]\<rparr>]"
    and o: "map_of (objects ctx') retId = Some (SurfaceProxy new_SessionLockSurface)"
    by (auto simp: SessionLock_GetLockSurface_eq map_of_store)
  from r ctx_ok_fresh[OF assms(1), of retId]
  show "map_of (objects ctx) retId = None" "Registered retId \<notin> set (journal ctx)" by simp_all
  show "journal ctx' = journal ctx @
          [Registered retId,
           Sent \<lparr>sender = l, opcode = 1,
             args = [ArgObject retId, ArgObject surface, ArgObject output]\<rparr>]" by (rule j)
  show "map_of (objects ctx') retId = Some (SurfaceProxy new_SessionLockSurface)" by (rule o)
  from ctx_ok_SessionLock_GetLockSurface[OF assms(1), of l surface "output"] assms(2)
  show "ctx_ok ctx'" by simp
  show "deliver ctx' retId event =
          (case SessionLockSurface_Dispatch new_SessionLockSurface event of
             Inl e \<Rightarrow> Inl e
           | Inr (s', event', t) \<Rightarrow> Inr (ctx', event', t))"
    by (rule deliver_surface[OF o])
  let ?s = "fst (AddConfigureHandler new_SessionLockSurface (Some h))"
  let ?c = "ctx'\<lparr>objects := store retId (SurfaceProxy ?s) (objects ctx')\<rparr>"
  have a: "at_surface ctx' retId (\<lambda>s. AddConfigureHandler s (Some h)) =
      Some (?c, snd (AddConfigureHandler new_SessionLockSurface (Some h)))"
    by (rule at_surface_registered[OF o])
  have "map_of (objects ?c) retId = Some (SurfaceProxy ?s)" by (simp add: map_of_store)
  from deliver_surface[OF this, of "\<lparr>Opcode = 0, payload = [serial, width, height]\<rparr>"]
  have "deliver ?c retId \<lparr>Opcode = 0, payload = [serial, width, height]\<rparr> =
               Inr (?c, \<lparr>Opcode = 0, payload = []\<rparr>,
                 [Len SessionLockSurfaceConfigureHandler,
                  Construct (SessionLockSurfaceConfigureEvent 0 0 0),
                  Uint32 serial, Uint32 width, Uint32 height, RLock,
                  HandleSessionLockSurfaceConfigure h
                    (SessionLockSurfaceConfigureEvent serial width height),
                  RUnlock])"
    by (simp add: SessionLockSurface_Dispatch_configure AddConfigureHandler_def
        new_SessionLockSurface_def)
  with a show "case at_surface ctx' retId (\<lambda>s. AddConfigureHandler s (Some h)) of
           None \<Rightarrow> False
         | Some (ctx'', t) \<Rightarrow>
             deliver ctx'' retId \<lparr>Opcode = 0, payload = [serial, width, height]\<rparr> =
               Inr (ctx'', \<lparr>Opcode = 0, payload = []\<rparr>,
                 [Len SessionLockSurfaceConfigureHandler,
                  Construct (SessionLockSurfaceConfigureEvent 0 0 0),
                  Uint32 serial, Uint32 width, Uint32 height, RLock,
                  HandleSessionLockSurfaceConfigure h
                    (SessionLockSurfaceConfigureEvent serial width height),
                  RUnlock])"
    by simp
qed

text \<open>
  Claim C2. \<open>Lock\<close> and \<open>GetLockSurface\<close> register the child proxy and then submit
  the request: the journal grows by the registration of the child followed by the one
  request that names it. The ID of the child was not in use and had never been
  registered. Whether or not the send succeeded, an event addressed to that ID is
  routed to the \<open>Dispatch\<close> of the child; a handler added to the returned proxy is
  called by the next locked (configure) event for that ID, with no other request in
  between.
\<close>

theorem child_registered_before_send:
  "ctx_ok ctx \<longrightarrow>
     (let (ctx', retId, err) = SessionLockManager_Lock ctx m
      in map_of (objects ctx) retId = None
         \<and> Registered retId \<notin> set (journal ctx)
         \<and> journal ctx' = journal ctx @
              [Registered retId, Sent \<lparr>sender = m, opcode = 1, args = [ArgObject retId]\<rparr>]
         \<and> map_of (objects ctx') retId = Some (LockProxy new_SessionLock)
         \<and> ctx_ok ctx'
         \<and> deliver ctx' retId event = Inr (ctx', snd (SessionLock_Dispatch new_SessionLock event))
         \<and> (case at_lock ctx' retId (\<lambda>l. AddLockedHandler l (Some h)) of
               None \<Rightarrow> False
             | Some (ctx'', t) \<Rightarrow>
                 deliver ctx'' retId \<lparr>Opcode = 0, payload = []\<rparr> =
                   Inr (ctx'', \<lparr>Opcode = 0, payload = []\<rparr>,
                     [Len SessionLockLockedHandler, Construct SessionLockLockedEvent, RLock,
                      HandleSessionLockLocked h SessionLockLockedEvent, RUnlock])))
     \<and> (let (ctx', retId, err) = SessionLock_GetLockSurface ctx l surface output
      in map_of (objects ctx) retId = None
         \<and> Registered retId \<notin> set (journal ctx)
         \<and> journal ctx' = journal ctx @
              [Registered retId,
               Sent \<lparr>sender = l, opcode = 1,
                 args = [ArgObject retId, ArgObject surface, ArgObject output]\<rparr>]
         \<and> map_of (objects ctx') retId = Some (SurfaceProxy new_SessionLockSurface)
         \<and> ctx_ok ctx'
         \<and> deliver ctx' retId event =
              (case SessionLockSurface_Dispatch new_SessionLockSurface event of
                 Inl e \<Rightarrow> Inl e
               | Inr (s', event', t) \<Rightarrow> Inr (ctx', event', t))
         \<and> (case at_surface ctx' retId (\<lambda>s. AddConfigureHandler s (Some h)) of
               None \<Rightarrow> False
             | Some (ctx'', t) \<Rightarrow>
                 deliver ctx'' retId \<lparr>Opcode = 0, payload = [serial, width, height]\<rparr> =
                   Inr (ctx'', \<lparr>Opcode = 0, payload = []\<rparr>,
                     [Len SessionLockSurfaceConfigureHandler,
                      Construct (SessionLockSurfaceConfigureEvent 0 0 0),
                      Uint32 serial, Uint32 width, Uint32 height, RLock,
                      HandleSessionLockSurfaceConfigure h
                        (SessionLockSurfaceConfigureEvent serial width height),
                      RUnlock])))"
proof
  assume ok: "ctx_ok ctx"
  obtain c1 r1 e1 where 1: "SessionLockManager_Lock ctx m = (c1, r1, e1)"
    by (cases "SessionLockManager_Lock ctx m") auto
  obtain c2 r2 e2 where 2: "SessionLock_GetLockSurface ctx l surface output = (c2, r2, e2)"
    by (cases "SessionLock_GetLockSurface ctx l surface output") auto
  note A = Lock_child[OF ok 1]
  note B = GetLockSurface_child[OF ok 2]
  show "(let (ctx', retId, err) = SessionLockManager_Lock ctx m
      in map_of (objects ctx) retId = None
         \<and> Registered retId \<notin> set (journal ctx)
         \<and> journal ctx' = journal ctx @
              [Registered retId, Sent \<lparr>sender = m, opcode = 1, args = [ArgObject retId]\<rparr>]
         \<and> map_of (objects ctx') retId = Some (LockProxy new_SessionLock)
         \<and> ctx_ok ctx'
         \<and> deliver ctx' retId event = Inr (ctx', snd (SessionLock_Dispatch new_SessionLock event))
         \<and> (case at_lock ctx' retId (\<lambda>l. AddLockedHandler l (Some h)) of
               None \<Rightarrow> False
             | Some (ctx'', t) \<Rightarrow>
                 deliver ctx'' retId \<lparr>Opcode = 0, payload = []\<rparr> =
                   Inr (ctx'', \<lparr>Opcode = 0, payload = []\<rparr>,
                     [Len SessionLockLockedHandler, Construct SessionLockLockedEvent, RLock,
                      HandleSessionLockLocked h SessionLockLockedEvent, RUnlock])))
     \<and> (let (ctx', retId, err) = SessionLock_GetLockSurface ctx l surface output
      in map_of (objects ctx) retId = None
         \<and> Registered retId \<notin> set (journal ctx)
         \<and> journal ctx' = journal ctx @
              [Registered retId,
               Sent \<lparr>sender = l, opcode = 1,
                 args = [ArgObject retId, ArgObject surface, ArgObject output]\<rparr>]
         \<and> map_of (objects ctx') retId = Some (SurfaceProxy new_SessionLockSurface)
         \<and> ctx_ok ctx'
         \<and> deliver ctx' retId event =
              (case SessionLockSurface_Dispatch new_SessionLockSurface event of
                 Inl e \<Rightarrow> Inl e
               | Inr (s', event', t) \<Rightarrow> Inr (ctx', event', t))
         \<and> (case at_surface ctx' retId (\<lambda>s. AddConfigureHandler s (Some h)) of
               None \<Rightarrow> False
             | Some (ctx'', t) \<Rightarrow>
                 deliver ctx'' retId \<lparr>Opcode = 0, payload = [serial, width, height]\<rparr> =
                   Inr (ctx'', \<lparr>Opcode = 0, payload = []\<rparr>,
                     [Len SessionLockSurfaceConfigureHandler,
                      Construct (SessionLockSurfaceConfigureEvent 0 0 0),
                      Uint32 serial, Uint32 width, Uint32 height, RLock,
                      HandleSessionLockSurfaceConfigure h
                        (SessionLockSurfaceConfigureEvent serial width height),
                      RUnlock])))"
    unfolding 1 2 Let_def prod.case
    by (intro conjI A B)
qed

text \<open>
  The theorem at a context that holds a manager under ID 1: the lock gets ID 2, a
  handler is added to it, and a locked event for ID 2 reaches the handler.
\<close>

theorem child_registered_before_send_witness:
  "ctx_ok \<lparr>currentID = 1, objects = [(1, ManagerProxy SessionLockManager)],
           journal = [Registered 1], sendError = None\<rparr>
   \<and> SessionLockManager_Lock
        \<lparr>currentID = 1, objects = [(1, ManagerProxy SessionLockManager)],
          journal = [Registered 1], sendError = None\<rparr> 1
     = (\<lparr>currentID = 2,
         objects = [(1, ManagerProxy SessionLockManager), (2, LockProxy new_SessionLock)],
         journal = [Registered 1, Registered 2,
                    Sent \<lparr>sender = 1, opcode = 1, args = [ArgObject 2]\<rparr>],
         sendError = None\<rparr>, 2, None)
   \<and> at_lock
        \<lparr>currentID = 2,
          objects = [(1, ManagerProxy SessionLockManager), (2, LockProxy new_SessionLock)],
          journal = [Registered 1, Registered 2,
                     Sent \<lparr>sender = 1, opcode = 1, args = [ArgObject 2]\<rparr>],
          sendError = None\<rparr> 2 (\<lambda>l. AddLockedHandler l (Some (Dyn 9 [])))
     = Some (\<lparr>currentID = 2,
          objects = [(1, ManagerProxy SessionLockManager),
                     (2, LockProxy \<lparr>privateSessionLockLocked = [Dyn 9 []],
                                     privateSessionLockFinished = []\<rparr>)],
          journal = [Registered 1, Registered 2,
                     Sent \<lparr>sender = 1, opcode = 1, args = [ArgObject 2]\<rparr>],
          sendError = None\<rparr>, [Lock, Unlock])
   \<and> deliver
        \<lparr>currentID = 2,
          objects = [(1, ManagerProxy SessionLockManager),
                     (2, LockProxy \<lparr>privateSessionLockLocked = [Dyn 9 []],
                                     privateSessionLockFinished = []\<rparr>)],
          journal = [Registered 1, Registered 2,
                     Sent \<lparr>sender = 1, opcode = 1, args = [ArgObject 2]\<rparr>],
          sendError = None\<rparr> 2 \<lparr>Opcode = 0, payload = []\<rparr>
     = Inr (\<lparr>currentID = 2,
          objects = [(1, ManagerProxy SessionLockManager),
                     (2, LockProxy \<lparr>privateSessionLockLocked = [Dyn 9 []],
                                     privateSessionLockFinished = []\<rparr>)],
          journal = [Registered 1, Registered 2,
                     Sent \<lparr>sender = 1, opcode = 1, args = [ArgObject 2]\<rparr>],
          sendError = None\<rparr>, \<lparr>Opcode = 0, payload = []\<rparr>,
          [Len SessionLockLockedHandler, Construct SessionLockLockedEvent, RLock,
           HandleSessionLockLocked (Dyn 9 []) SessionLockLockedEvent, RUnlock])"
  using child_registered_before_send [of
      "\<lparr>currentID = 1, objects = [(1, ManagerProxy SessionLockManager)],
        journal = [Registered 1], sendError = None\<rparr>" 1 "\<lparr>Opcode = 0, payload = []\<rparr>"
      "Dyn 9 []" 1 5 6 7 1920 1080]
  by (simp add: ctx_ok_def SessionLockManager_Lock_eq at_lock_def AddLockedHandler_def
      new_SessionLock_def numeral_2_eq_2)

section \<open>Counting invocations\<close>










































end
